theory Spec2Isabelle
  imports Main
begin

section \<open>Execution status machine (domain/enums.py)\<close>

text \<open>
  \<^verbatim>\<open>ExecutionStatus\<close> is a string enumeration of seven members. The method
  \<^verbatim>\<open>can_transition_to\<close> builds the dictionary \<^verbatim>\<open>valid_transitions\<close> from a status
  to the set of statuses it may move to, and tests membership of the target in the set
  found under the current status.
\<close>

datatype ExecutionStatus =
  PENDING | PROCESSING | COMPLETED | FAILED | CANCELLED | SKIPPED | RETRYING

fun status_value :: "ExecutionStatus \<Rightarrow> string" where
  "status_value PENDING = ''PENDING''"
| "status_value PROCESSING = ''PROCESSING''"
| "status_value COMPLETED = ''COMPLETED''"
| "status_value FAILED = ''FAILED''"
| "status_value CANCELLED = ''CANCELLED''"
| "status_value SKIPPED = ''SKIPPED''"
| "status_value RETRYING = ''RETRYING''"

fun valid_transitions :: "ExecutionStatus \<Rightarrow> ExecutionStatus set" where
  "valid_transitions PENDING = {PROCESSING, CANCELLED, SKIPPED}"
| "valid_transitions PROCESSING = {COMPLETED, FAILED, RETRYING, CANCELLED}"
| "valid_transitions RETRYING = {PROCESSING, FAILED, CANCELLED}"
| "valid_transitions COMPLETED = {}"
| "valid_transitions FAILED = {PENDING, RETRYING}"
| "valid_transitions CANCELLED = {}"
| "valid_transitions SKIPPED = {}"

definition can_transition_to :: "ExecutionStatus \<Rightarrow> ExecutionStatus \<Rightarrow> bool" where
  "can_transition_to self new_status = (new_status \<in> valid_transitions self)"

text \<open>
  The transition table as the specification prints it (section 4.1), row by row, as a
  list of ordered pairs. It is the reference the code's dictionary is compared with.
\<close>

definition spec_transition_table :: "(ExecutionStatus \<times> ExecutionStatus) list" where
  "spec_transition_table =
     [(PENDING, PROCESSING), (PENDING, CANCELLED), (PENDING, SKIPPED),
      (PROCESSING, COMPLETED), (PROCESSING, FAILED), (PROCESSING, RETRYING),
      (PROCESSING, CANCELLED),
      (RETRYING, PROCESSING), (RETRYING, FAILED), (RETRYING, CANCELLED),
      (FAILED, PENDING), (FAILED, RETRYING)]"

section \<open>Domain events and errors (domain/events.py, domain/exceptions/domain.py)\<close>

type_synonym uuid = nat
type_synonym datetime = nat

text \<open>
  Every call of \<^verbatim>\<open>datetime.now(timezone.utc)\<close> is a read of the clock. A method takes
  the readings it will make as a function from the position of the read inside the call
  (0 for the first read) to the time read.
\<close>

type_synonym clock = "nat \<Rightarrow> datetime"

text \<open>
  The event classes are data classes; the arguments of each constructor are the fields
  in declaration order, the last one being \<^verbatim>\<open>timestamp\<close>, whose default is a clock read
  at construction.
\<close>

datatype DomainEvent =
    ItemExecutionFailed uuid uuid uuid string int datetime
  | RunCompleted uuid uuid datetime datetime
  | RunFailed uuid uuid string datetime datetime
  | RunCancelled uuid uuid string datetime datetime
  | BatchExecutionFailed uuid uuid uuid datetime datetime

text \<open>
  \<^verbatim>\<open>InvalidStateError(entity_name, entity_id, current_state, operation)\<close> and
  \<^verbatim>\<open>ValidationError(entity_name, field, reason)\<close>.
\<close>

datatype DomainError =
    InvalidStateError string uuid string string
  | ValidationError string string string

section \<open>Domain entities (domain/base.py, domain/entities/execution.py)\<close>

text \<open>
  \<^verbatim>\<open>DomainEntity\<close> is the data class every persisted entity inherits from; the
  field \<^verbatim>\<open>id\<close> is written \<open>id'\<close> here and \<^verbatim>\<open>_events\<close> is written
  \<open>events\<close>. Inheritance is record extension.
\<close>

record DomainEntity =
  id' :: uuid
  created_at :: "datetime option"
  updated_at :: "datetime option"
  created_by :: "string option"
  updated_by :: "string option"
  version :: int
  is_active :: bool
  events :: "DomainEvent list"

record Run = DomainEntity +
  automation_id :: uuid
  correlation_id :: "string option"
  cancellation_reason :: "string option"
  error_summary :: "string option"
  status :: ExecutionStatus
  started_at :: "datetime option"
  finished_at :: "datetime option"

record ItemExecution = DomainEntity +
  run_id :: uuid
  batch_execution_id :: uuid
  item_id :: uuid
  result_payload :: "string option"
  error_message :: "string option"
  status :: ExecutionStatus
  started_at :: "datetime option"
  finished_at :: "datetime option"
  attempt_count :: int
  max_attempts :: "int option"

text \<open>
  \<^verbatim>\<open>register_event\<close> appends to the entity's event list, \<^verbatim>\<open>pop_events\<close> returns
  a copy of the list and clears it, \<^verbatim>\<open>_bump_version\<close> adds one to the version and
  stamps \<^verbatim>\<open>updated_at\<close> with a clock read.
\<close>

definition register_event ::
  "DomainEvent \<Rightarrow> 'a DomainEntity_scheme \<Rightarrow> 'a DomainEntity_scheme" where
  "register_event event self = self\<lparr>events := events self @ [event]\<rparr>"

definition pop_events ::
  "'a DomainEntity_scheme \<Rightarrow> DomainEvent list \<times> 'a DomainEntity_scheme" where
  "pop_events self = (events self, self\<lparr>events := []\<rparr>)"

definition bump_version ::
  "datetime \<Rightarrow> 'a DomainEntity_scheme \<Rightarrow> 'a DomainEntity_scheme" where
  "bump_version now self = self\<lparr>version := version self + 1, updated_at := Some now\<rparr>"

text \<open>
  A method that may raise returns the exception raised, if any, together with the object
  as the call leaves it: an assignment made before a \<^verbatim>\<open>raise\<close> stays visible.
\<close>

type_synonym 'a outcome = "DomainError option \<times> 'a"

text \<open>\<^verbatim>\<open>Run.start\<close> and \<^verbatim>\<open>Run.complete\<close>.\<close>

definition Run_start :: "clock \<Rightarrow> Run \<Rightarrow> Run outcome" where
  "Run_start clk self =
     (if \<not> can_transition_to (Run.status self) PROCESSING
      then (Some (InvalidStateError ''Run'' (id' self) (status_value (Run.status self)) ''start''),
            self)
      else (None,
            bump_version (clk 1)
              (self\<lparr>Run.status := PROCESSING, Run.started_at := Some (clk 0)\<rparr>)))"

definition Run_complete :: "clock \<Rightarrow> Run \<Rightarrow> Run outcome" where
  "Run_complete clk self =
     (if \<not> can_transition_to (Run.status self) COMPLETED
      then (Some (InvalidStateError ''Run'' (id' self) (status_value (Run.status self))
                    ''complete''),
            self)
      else
        (let s1 = self\<lparr>Run.status := COMPLETED, Run.finished_at := Some (clk 0)\<rparr>;
             s2 = bump_version (clk 1) s1
         in (None,
             register_event
               (RunCompleted (id' s2) (automation_id s2) (clk 0) (clk 2)) s2)))"

text \<open>
  Python's \<^verbatim>\<open>str\<close> of an integer, used where a message formats a number.
\<close>

function str_nat :: "nat \<Rightarrow> string" where
  "str_nat n =
     (if n < 10 then [char_of (48 + n)]
      else str_nat (n div 10) @ [char_of (48 + n mod 10)])"
  by pat_completeness auto
termination
  by (relation "measure (\<lambda>n. n)") auto

definition str_int :: "int \<Rightarrow> string" where
  "str_int i = (if i < 0 then ''-'' @ str_nat (nat (- i)) else str_nat (nat i))"

definition str_opt_int :: "int option \<Rightarrow> string" where
  "str_opt_int v = (case v of None \<Rightarrow> ''None'' | Some i \<Rightarrow> str_int i)"

text \<open>
  \<^verbatim>\<open>ItemExecution.start\<close>: the attempt limit is tested first, then the legality of the
  transition to PROCESSING; only then are the fields assigned.
\<close>

definition attempts_reached :: "ItemExecution \<Rightarrow> bool" where
  "attempts_reached self =
     (case max_attempts self of None \<Rightarrow> False | Some m \<Rightarrow> attempt_count self \<ge> m)"

definition ItemExecution_start :: "clock \<Rightarrow> ItemExecution \<Rightarrow> ItemExecution outcome" where
  "ItemExecution_start clk self =
     (if attempts_reached self
      then (Some (InvalidStateError ''ItemExecution'' (id' self) (status_value (status self))
                    (''start (max attempts '' @ str_opt_int (max_attempts self)
                       @ '' already reached)'')),
            self)
      else if \<not> can_transition_to (status self) PROCESSING
      then (Some (InvalidStateError ''ItemExecution'' (id' self) (status_value (status self))
                    ''start''),
            self)
      else (None,
            bump_version (clk 1)
              (self\<lparr>status := PROCESSING, started_at := Some (clk 0),
                     attempt_count := attempt_count self + 1\<rparr>)))"

text \<open>
  \<^verbatim>\<open>ItemExecution.can_retry\<close> and \<^verbatim>\<open>ItemExecution.fail\<close>. In \<^verbatim>\<open>fail\<close> the
  assignment of \<^verbatim>\<open>error_message\<close> is the first statement; the target status is
  computed next, and the legality of the transition is tested after both.
\<close>

definition can_retry :: "ItemExecution \<Rightarrow> bool" where
  "can_retry self =
     (case max_attempts self of None \<Rightarrow> False | Some m \<Rightarrow> attempt_count self < m)"

definition fail_target :: "ItemExecution \<Rightarrow> ExecutionStatus" where
  "fail_target self =
     (if (case max_attempts self of None \<Rightarrow> False | Some m \<Rightarrow> attempt_count self < m)
      then RETRYING else FAILED)"

definition ItemExecution_fail ::
  "string \<Rightarrow> clock \<Rightarrow> ItemExecution \<Rightarrow> ItemExecution outcome" where
  "ItemExecution_fail msg clk self =
     (let s1 = self\<lparr>error_message := Some msg\<rparr>;
          target_status = fail_target s1
      in if \<not> can_transition_to (status s1) target_status
         then (Some (InvalidStateError ''ItemExecution'' (id' s1) (status_value (status s1))
                       (''transition to '' @ status_value target_status)),
               s1)
         else
           (let s2 = s1\<lparr>status := target_status\<rparr>;
                s3 = (if target_status = FAILED
                      then s2\<lparr>finished_at := Some (clk 0)\<rparr> else s2);
                s4 = bump_version (if target_status = FAILED then clk 1 else clk 0) s3
            in (None,
                register_event
                  (ItemExecutionFailed (id' s4) (run_id s4) (item_id s4) msg
                     (attempt_count s4)
                     (if target_status = FAILED then clk 2 else clk 1))
                  s4)))"

subsection \<open>Sample entities\<close>

text \<open>
  A run as the constructor leaves it (\<^verbatim>\<open>Run(automation_id=3)\<close>, identifier 7), and an
  item execution in PROCESSING with one attempt made out of three allowed.
\<close>

definition sample_run :: Run where
  "sample_run =
     \<lparr>id' = 7, created_at = None, updated_at = None, created_by = None, updated_by = None,
      version = 1, is_active = True, events = [],
      automation_id = 3, correlation_id = None, cancellation_reason = None,
      error_summary = None, Run.status = PENDING, Run.started_at = None,
      Run.finished_at = None\<rparr>"

definition sample_item :: ItemExecution where
  "sample_item =
     \<lparr>id' = 11, created_at = None, updated_at = Some 4, created_by = None,
      updated_by = None, version = 2, is_active = True, events = [],
      run_id = 7, batch_execution_id = 8, item_id = 9, result_payload = None,
      error_message = None, status = PROCESSING, started_at = Some 4, finished_at = None,
      attempt_count = 1, max_attempts = Some 3\<rparr>"

definition sample_clock :: clock where
  "sample_clock n = 20 + n"

text \<open>
  The sample item execution with a single attempt allowed, after \<^verbatim>\<open>fail\<close>: it is FAILED
  and its \<^verbatim>\<open>finished_at\<close> is set.
\<close>

definition failed_item :: ItemExecution where
  "failed_item = snd (ItemExecution_fail ''boom'' sample_clock (sample_item\<lparr>max_attempts := Some 1\<rparr>))"

subsection \<open>Equality of entities\<close>

text \<open>
  \<^verbatim>\<open>DomainEntity\<close> defines \<^verbatim>\<open>__eq__\<close> by hand: the other object must be a
  \<^verbatim>\<open>DomainEntity\<close> and have the same \<^verbatim>\<open>id\<close>. Each entity class is declared with a
  bare \<^verbatim>\<open>@dataclass\<close> decorator (execution.py lines 11 and 198). With the default
  \<^verbatim>\<open>eq=True\<close> the decorator adds an \<^verbatim>\<open>__eq__\<close> to every class whose own body does
  not define one: that method answers \<^verbatim>\<open>NotImplemented\<close> unless the other object is of
  exactly the same class, and otherwise compares the tuples of all fields declared with
  \<^verbatim>\<open>compare=True\<close> (the default, which no field here overrides), inherited fields
  first. The body of \<^verbatim>\<open>Run\<close> and that of \<^verbatim>\<open>ItemExecution\<close> define no \<^verbatim>\<open>__eq__\<close>,
  so the method found on their instances is the generated one, ahead of the inherited one.
\<close>

datatype Entity = RunEntity Run | ItemExecutionEntity ItemExecution

datatype eq_answer = Answer bool | NotImplemented

fun id_of_entity :: "Entity \<Rightarrow> uuid" where
  "id_of_entity (RunEntity r) = id' r"
| "id_of_entity (ItemExecutionEntity e) = id' e"

definition DomainEntity_eq :: "Entity \<Rightarrow> Entity \<Rightarrow> bool" where
  "DomainEntity_eq self other = (id_of_entity self = id_of_entity other)"

definition Run_eq :: "Run \<Rightarrow> Entity \<Rightarrow> eq_answer" where
  "Run_eq self other =
     (case other of
        RunEntity other' \<Rightarrow>
          Answer
            ((id' self, created_at self, updated_at self, created_by self, updated_by self,
              version self, is_active self, events self, automation_id self,
              correlation_id self, cancellation_reason self, error_summary self,
              Run.status self, Run.started_at self, Run.finished_at self)
             = (id' other', created_at other', updated_at other', created_by other',
                updated_by other', version other', is_active other', events other',
                automation_id other', correlation_id other', cancellation_reason other',
                error_summary other', Run.status other', Run.started_at other',
                Run.finished_at other'))
      | _ \<Rightarrow> NotImplemented)"

definition ItemExecution_eq :: "ItemExecution \<Rightarrow> Entity \<Rightarrow> eq_answer" where
  "ItemExecution_eq self other =
     (case other of
        ItemExecutionEntity other' \<Rightarrow>
          Answer
            ((id' self, created_at self, updated_at self, created_by self, updated_by self,
              version self, is_active self, events self, run_id self,
              batch_execution_id self, item_id self, result_payload self,
              error_message self, status self, started_at self, finished_at self,
              attempt_count self, max_attempts self)
             = (id' other', created_at other', updated_at other', created_by other',
                updated_by other', version other', is_active other', events other',
                run_id other', batch_execution_id other', item_id other',
                result_payload other', error_message other', status other',
                started_at other', finished_at other', attempt_count other',
                max_attempts other'))
      | _ \<Rightarrow> NotImplemented)"

text \<open>
  The method \<^verbatim>\<open>type(self).__eq__\<close>, and the operator \<^verbatim>\<open>==\<close>: the left operand's
  method is tried first, then the right operand's; when both answer
  \<^verbatim>\<open>NotImplemented\<close> the operands are of different classes, hence different objects,
  and the comparison of identities that Python falls back on is false.
\<close>

fun class_eq :: "Entity \<Rightarrow> Entity \<Rightarrow> eq_answer" where
  "class_eq (RunEntity r) other = Run_eq r other"
| "class_eq (ItemExecutionEntity e) other = ItemExecution_eq e other"

definition py_eq :: "Entity \<Rightarrow> Entity \<Rightarrow> bool" where
  "py_eq a b =
     (case class_eq a b of
        Answer r \<Rightarrow> r
      | NotImplemented \<Rightarrow> (case class_eq b a of Answer r \<Rightarrow> r | NotImplemented \<Rightarrow> False))"

section \<open>Objects, the identity map and the event bus (infrastructure/uow/unit_of_work.py)\<close>

text \<open>
  The repository and the unit of work reach the attributes of entities and the columns of
  rows by name (\<^verbatim>\<open>getattr\<close>, \<^verbatim>\<open>setattr\<close>, \<^verbatim>\<open>hasattr\<close>), so at this level an entity
  is the dictionary of its attributes and a row is a valuation of the columns. \<open>VNone\<close>
  is Python's \<^verbatim>\<open>None\<close> and SQL's NULL.
\<close>

datatype val = VNone | VBool bool | VInt int | VStr string | VTime datetime | VUuid uuid

type_synonym row = "string \<Rightarrow> val"

text \<open>
  An entity object: its class, its public attributes, its \<^verbatim>\<open>_events\<close> list, and
  whether it is an instance of \<^verbatim>\<open>DomainEntity\<close> (and so has \<^verbatim>\<open>touch\<close> and
  \<^verbatim>\<open>pop_events\<close>; \<^verbatim>\<open>ItemStateHistory\<close> is not). Objects are mutable and shared between
  the caller and the identity map, so they live in a heap and are passed by reference.
\<close>

record entity_obj =
  obj_class :: string
  obj_attrs :: "string \<rightharpoonup> val"
  obj_events :: "DomainEvent list"
  domain_entity :: bool

type_synonym ref = nat

text \<open>
  The world shared by all scopes: the table of the repository's model in the store, and
  the heap of entity objects. Reads and writes of the session are reads and writes of the
  table; what one scope has written is what another scope reads.
\<close>

record world =
  table :: "row list"
  heap :: "ref \<Rightarrow> entity_obj"
  next_ref :: ref

definition alloc :: "entity_obj \<Rightarrow> world \<Rightarrow> ref \<times> world" where
  "alloc obj w =
     (next_ref w, w\<lparr>heap := (heap w)(next_ref w := obj), next_ref := Suc (next_ref w)\<rparr>)"

definition set_obj :: "ref \<Rightarrow> entity_obj \<Rightarrow> world \<Rightarrow> world" where
  "set_obj r obj w = w\<lparr>heap := (heap w)(r := obj)\<rparr>"

text \<open>
  \<^verbatim>\<open>DomainEntity.touch\<close>, \<^verbatim>\<open>register_event\<close> and \<^verbatim>\<open>pop_events\<close> on an object of the
  heap. \<^verbatim>\<open>if user:\<close> holds for a string that is neither \<^verbatim>\<open>None\<close> nor empty.
\<close>

definition touch :: "datetime \<Rightarrow> string option \<Rightarrow> entity_obj \<Rightarrow> entity_obj" where
  "touch now user obj =
     (let a1 = (obj_attrs obj)(''updated_at'' \<mapsto> VTime now)
      in obj\<lparr>obj_attrs :=
               (case user of
                  Some u \<Rightarrow> if u \<noteq> [] then a1(''updated_by'' \<mapsto> VStr u) else a1
                | None \<Rightarrow> a1)\<rparr>)"



subsection \<open>EventBus\<close>

text \<open>
  A handler is a callable run for its effect; here it transforms the state \<open>'h\<close> the
  handlers act on. \<^verbatim>\<open>handlers\<close> maps an event class to the list of its handlers in
  registration order. In synchronous mode \<^verbatim>\<open>dispatch\<close> runs every handler of every
  event, in order; in asynchronous mode it submits each pair of handler and event to the
  executor and records the future.
\<close>

datatype event_type =
  T_ItemExecutionFailed | T_RunCompleted | T_RunFailed | T_RunCancelled | T_BatchExecutionFailed


type_synonym 'h handler = "DomainEvent \<Rightarrow> 'h \<Rightarrow> 'h"

record 'h EventBus =
  handlers :: "event_type \<Rightarrow> 'h handler list"
  use_async :: bool


definition register ::
  "event_type \<Rightarrow> 'h handler \<Rightarrow> 'h EventBus \<Rightarrow> 'h EventBus" where
  "register t handler bus = bus\<lparr>handlers := (handlers bus)(t := handlers bus t @ [handler])\<rparr>"


subsection \<open>UnitOfWork\<close>

text \<open>
  \<^verbatim>\<open>_identity_map\<close> is a dictionary of dictionaries, class first and identifier second;
  it is kept here as one map from the pair. \<^verbatim>\<open>_tracked_entities\<close> is a dictionary from
  the pair to the object; its iteration order is the order in which the keys were first
  inserted, so it is an association list. \<^verbatim>\<open>session\<close> says whether the session is set,
  \<^verbatim>\<open>repositories\<close> whether the repository attributes are bound.
\<close>

type_synonym entity_key = "string \<times> uuid"

record UnitOfWork =
  session :: bool
  identity_map :: "entity_key \<rightharpoonup> ref"
  tracked_entities :: "(entity_key \<times> ref) list"
  repositories :: bool

text \<open>Assignment to a key of an insertion-ordered dictionary, and \<^verbatim>\<open>pop(key, None)\<close>.\<close>

fun dict_set :: "'k \<Rightarrow> 'v \<Rightarrow> ('k \<times> 'v) list \<Rightarrow> ('k \<times> 'v) list" where
  "dict_set k v [] = [(k, v)]"
| "dict_set k v (p # ps) = (if fst p = k then (k, v) # ps else p # dict_set k v ps)"


text \<open>
  \<^verbatim>\<open>register_entity(entity, entity_id)\<close>: the class is \<^verbatim>\<open>type(entity)\<close>. The callers
  in the repository pass the identifier of the row the entity was built from, or leave
  the default \<^verbatim>\<open>entity.id\<close>, which holds the same value; the identifier is an argument
  here.
\<close>

definition register_entity :: "world \<Rightarrow> ref \<Rightarrow> uuid \<Rightarrow> UnitOfWork \<Rightarrow> UnitOfWork" where
  "register_entity w entity entity_id u =
     (let key = (obj_class (heap w entity), entity_id)
      in u\<lparr>identity_map := (identity_map u)(key \<mapsto> entity),
            tracked_entities := dict_set key entity (tracked_entities u)\<rparr>)"



definition get_entity :: "UnitOfWork \<Rightarrow> string \<Rightarrow> uuid \<Rightarrow> ref option" where
  "get_entity u entity_class entity_id = identity_map u (entity_class, entity_id)"










subsection \<open>A sample scope\<close>

text \<open>
  Two objects with one pending event each: a run (reference 0, identifier 7) and an item
  execution (reference 1, identifier 11). The bus is synchronous and has one handler for
  every event class, which appends the event to a log.
\<close>

definition blank_obj :: entity_obj where
  "blank_obj = \<lparr>obj_class = ''object'', obj_attrs = Map.empty, obj_events = [],
                 domain_entity = False\<rparr>"



definition open_uow :: UnitOfWork where
  "open_uow = \<lparr>session = True, identity_map = Map.empty, tracked_entities = [],
               repositories = True\<rparr>"



section \<open>BaseRepository (infrastructure/database/repositories/base.py)\<close>

text \<open>
  What a concrete repository fixes: the names of its model and entity classes, the
  columns of the model's table, the class attribute \<^verbatim>\<open>updatable_fields\<close>, and the
  attributes its \<^verbatim>\<open>_to_entity\<close> reads from the row besides the common ones.
  \<^verbatim>\<open>hasattr(self.model_class, c)\<close> holds when \<open>c\<close> is a column.
\<close>

record repo_config =
  model_name :: string
  entity_class :: string
  columns :: "string list"
  updatable_fields :: "string list option"
  entity_fields :: "string list"

text \<open>
  The class attribute \<^verbatim>\<open>use_versioning\<close> is \<^verbatim>\<open>True\<close> in \<^verbatim>\<open>BaseRepository\<close>. One
  repository overrides it: \<^verbatim>\<open>ItemStateHistoryRepository\<close> sets it to \<^verbatim>\<open>False\<close>; its
  model has no column \<^verbatim>\<open>version\<close>, its entity is no \<^verbatim>\<open>DomainEntity\<close>, and its
  \<^verbatim>\<open>update\<close> and \<^verbatim>\<open>delete\<close> always raise \<^verbatim>\<open>NotImplementedError\<close>. The
  repositories modelled here are the others, those of the \<^verbatim>\<open>DomainEntity\<close> classes.
\<close>

definition use_versioning :: bool where
  "use_versioning = True"

datatype repo_error =
    RepositoryError string
  | EntityNotFoundError string uuid
  | DuplicateEntityError string string
  | ConcurrencyError string uuid val val "string option"

text \<open>
  One scope: a unit of work and the repository bound to it, whose dictionary
  \<^verbatim>\<open>_original_versions\<close> holds the version each entity had when the scope last read or
  wrote it.
\<close>

record scope =
  uow :: UnitOfWork
  original_versions :: "uuid \<rightharpoonup> val"

text \<open>
  The store. \<^verbatim>\<open>session.get(model, id)\<close> and a query filtered on the identifier (and,
  when asked, on \<^verbatim>\<open>is_active == True\<close>) followed by \<^verbatim>\<open>first()\<close> return the first
  matching row. An UPDATE with RETURNING rewrites the matching rows and returns them, a
  DELETE removes them and returns their number. \<^verbatim>\<open>scalar_one_or_none\<close> raises when
  more than one row came back.
\<close>

definition db_get :: "row list \<Rightarrow> uuid \<Rightarrow> row option" where
  "db_get rows i = find (\<lambda>r. r ''id'' = VUuid i) rows"

definition query_first :: "row list \<Rightarrow> uuid \<Rightarrow> bool \<Rightarrow> row option" where
  "query_first rows i only_active =
     find (\<lambda>r. r ''id'' = VUuid i \<and> (\<not> only_active \<or> r ''is_active'' = VBool True)) rows"

definition sql_update ::
  "(row \<Rightarrow> bool) \<Rightarrow> (row \<Rightarrow> row) \<Rightarrow> row list \<Rightarrow> row list \<times> row list" where
  "sql_update cond set_values rows =
     (map (\<lambda>r. if cond r then set_values r else r) rows, map set_values (filter cond rows))"


fun scalar_one_or_none :: "row list \<Rightarrow> unit + row option" where
  "scalar_one_or_none [] = Inr None"
| "scalar_one_or_none [r] = Inr (Some r)"
| "scalar_one_or_none (r # r' # rs) = Inl ()"

text \<open>The SQL expression \<^verbatim>\<open>version + 1\<close>; arithmetic on NULL gives NULL.\<close>

fun sql_plus_one :: "val \<Rightarrow> val" where
  "sql_plus_one (VInt n) = VInt (n + 1)"
| "sql_plus_one _ = VNone"

text \<open>Python's truth value of a value, and \<^verbatim>\<open>x or d\<close>.\<close>

fun truthy :: "val \<Rightarrow> bool" where
  "truthy VNone = False"
| "truthy (VBool b) = b"
| "truthy (VInt n) = (n \<noteq> 0)"
| "truthy (VStr s) = (s \<noteq> [])"
| "truthy (VTime _) = True"
| "truthy (VUuid _) = True"

definition py_or :: "val \<Rightarrow> val \<Rightarrow> val" where
  "py_or x d = (if truthy x then x else d)"

text \<open>\<^verbatim>\<open>getattr(entity, name, default)\<close>.\<close>

definition getattr_default :: "entity_obj \<Rightarrow> string \<Rightarrow> val \<Rightarrow> val" where
  "getattr_default obj name d = (case obj_attrs obj name of Some v \<Rightarrow> v | None \<Rightarrow> d)"

subsection \<open>Conversions between rows and entities\<close>

text \<open>
  \<^verbatim>\<open>_copy_common_attrs\<close> copies each listed attribute the source has.
  \<^verbatim>\<open>_to_entity\<close> of every repository of a \<^verbatim>\<open>DomainEntity\<close> class has one shape: the
  constructor is called with attributes read from the row, the remaining attributes of
  \<^verbatim>\<open>DomainEntity\<close> take their defaults, and then the seven common attributes are
  copied from the row. (\<^verbatim>\<open>ItemStateHistoryRepository._to_entity\<close> is different: it
  builds an \<^verbatim>\<open>ItemStateHistory\<close>, which is no \<^verbatim>\<open>DomainEntity\<close>, and sets only
  \<^verbatim>\<open>id\<close>, \<^verbatim>\<open>created_at\<close> and \<^verbatim>\<open>created_by\<close>; it is not modelled.) The
  constructors validate their arguments in \<^verbatim>\<open>__post_init__\<close> and those of
  \<^verbatim>\<open>Automation\<close> and \<^verbatim>\<open>Batch\<close> strip the white space around the name; the rows
  considered here hold values that pass the validation and names without surrounding
  white space, so every attribute is the value of the row. The default of \<^verbatim>\<open>id\<close> is a
  fresh identifier that the copy replaces, every model having the column \<^verbatim>\<open>id\<close>; it
  is left out. \<^verbatim>\<open>_update_entity_from_model\<close> copies every column but \<^verbatim>\<open>id\<close> and
  \<^verbatim>\<open>created_at\<close> into the attribute of the same name, when the entity has it.
\<close>

definition common_attrs :: "string list" where
  "common_attrs = [''id'', ''created_at'', ''updated_at'', ''created_by'', ''updated_by'',
                   ''version'', ''is_active'']"

definition copy_common_attrs ::
  "repo_config \<Rightarrow> row \<Rightarrow> (string \<rightharpoonup> val) \<Rightarrow> string list \<Rightarrow> (string \<rightharpoonup> val)" where
  "copy_common_attrs cfg source target field_names =
     fold (\<lambda>field t. if field \<in> set (columns cfg) then t(field \<mapsto> source field) else t)
       field_names target"

definition DomainEntity_defaults :: "string \<rightharpoonup> val" where
  "DomainEntity_defaults =
     [''created_at'' \<mapsto> VNone, ''updated_at'' \<mapsto> VNone, ''created_by'' \<mapsto> VNone,
      ''updated_by'' \<mapsto> VNone, ''version'' \<mapsto> VInt 1, ''is_active'' \<mapsto> VBool True]"

definition to_entity :: "repo_config \<Rightarrow> row \<Rightarrow> entity_obj" where
  "to_entity cfg model =
     \<lparr>obj_class = entity_class cfg,
      obj_attrs =
        copy_common_attrs cfg model
          (fold (\<lambda>field t. t(field \<mapsto> model field)) (entity_fields cfg) DomainEntity_defaults)
          common_attrs,
      obj_events = [],
      domain_entity = True\<rparr>"

definition update_entity_from_model :: "repo_config \<Rightarrow> entity_obj \<Rightarrow> row \<Rightarrow> entity_obj" where
  "update_entity_from_model cfg entity model =
     entity\<lparr>obj_attrs :=
       fold (\<lambda>key a. if key \<in> {''id'', ''created_at''} then a
                      else if a key \<noteq> None then a(key \<mapsto> model key) else a)
         (columns cfg) (obj_attrs entity)\<rparr>"

text \<open>
  Recording the version of an entity as the scope's baseline:
  \<^verbatim>\<open>if self.use_versioning and hasattr(entity, 'version'): self._original_versions[id] = v\<close>.
\<close>

definition record_version :: "entity_obj \<Rightarrow> uuid \<Rightarrow> val \<Rightarrow> scope \<Rightarrow> scope" where
  "record_version entity i v sc =
     (if use_versioning \<and> obj_attrs entity ''version'' \<noteq> None
      then sc\<lparr>original_versions := (original_versions sc)(i \<mapsto> v)\<rparr> else sc)"

subsection \<open>get\<close>

text \<open>
  \<^verbatim>\<open>get\<close> looks in the identity map first. A cached entity is returned when soft-deleted
  entities are wanted or the entity has a true \<^verbatim>\<open>is_active\<close>; its current version
  becomes the baseline. Otherwise the store is queried; a row found is converted,
  registered under the row's identifier, its version recorded, and returned.
\<close>

definition get ::
  "repo_config \<Rightarrow> uuid \<Rightarrow> bool \<Rightarrow> world \<Rightarrow> scope
     \<Rightarrow> (repo_error + ref option) \<times> world \<times> scope" where
  "get cfg i include_soft_deleted w sc =
     (let cached =
        (case get_entity (uow sc) (entity_class cfg) i of
           None \<Rightarrow> None
         | Some entity \<Rightarrow>
             if include_soft_deleted
                \<or> (case obj_attrs (heap w entity) ''is_active'' of
                      None \<Rightarrow> False | Some v \<Rightarrow> truthy v)
             then Some entity else None)
      in case cached of
           Some entity \<Rightarrow>
             (Inr (Some entity), w,
              record_version (heap w entity) i
                (getattr_default (heap w entity) ''version'' VNone) sc)
         | None \<Rightarrow>
             (case query_first (table w) i
                     (\<not> include_soft_deleted \<and> ''is_active'' \<in> set (columns cfg)) of
                None \<Rightarrow> (Inr None, w, sc)
              | Some model \<Rightarrow>
                  (case alloc (to_entity cfg model) w of
                     (entity, w') \<Rightarrow>
                       (Inr (Some entity), w',
                        record_version (heap w' entity) i (model ''version'')
                          (sc\<lparr>uow := register_entity w' entity i (uow sc)\<rparr>)))))"

subsection \<open>count\<close>


subsection \<open>update\<close>

text \<open>
  \<^verbatim>\<open>_get_changed_data\<close>. The allowed fields are \<^verbatim>\<open>updatable_fields\<close> when the
  repository sets them, else the columns outside the excluded ones; \<^verbatim>\<open>updated_at\<close> and
  \<^verbatim>\<open>updated_by\<close> are added when the model has them. The result holds, for every allowed
  field whose value on the entity (\<^verbatim>\<open>None\<close> when the attribute is missing) differs
  from the value \<^verbatim>\<open>model_dict\<close> has for it (\<^verbatim>\<open>None\<close> when the field is no column),
  the entity's value. The remaining loop of the source only writes to the log.
\<close>

definition exclude_fields :: "bool \<Rightarrow> string list" where
  "exclude_fields preserve_created =
     (if preserve_created then [''id'', ''created_at'', ''created_by''] else [''id''])"

definition allowed_fields :: "repo_config \<Rightarrow> bool \<Rightarrow> string list" where
  "allowed_fields cfg preserve_created =
     (let exclude = exclude_fields preserve_created;
          a0 = (case updatable_fields cfg of
                  Some fs \<Rightarrow> fs
                | None \<Rightarrow> filter (\<lambda>c. c \<notin> set exclude) (columns cfg));
          a1 = (if ''updated_at'' \<in> set (columns cfg) \<and> ''updated_at'' \<notin> set exclude
                then a0 @ [''updated_at''] else a0);
          a2 = (if ''updated_by'' \<in> set (columns cfg) \<and> ''updated_by'' \<notin> set exclude
                then a1 @ [''updated_by''] else a1)
      in remdups a2)"

definition get_changed_data ::
  "repo_config \<Rightarrow> entity_obj \<Rightarrow> row \<Rightarrow> bool \<Rightarrow> (string \<times> val) list" where
  "get_changed_data cfg entity existing_model preserve_created =
     (let allowed = allowed_fields cfg preserve_created;
          exclude = exclude_fields preserve_created;
          model_dict = (\<lambda>key. if key \<in> set (columns cfg)
                                  \<and> (key \<in> set allowed \<or> key \<in> set exclude)
                               then Some (existing_model key) else None)
      in map (\<lambda>field. (field, getattr_default entity field VNone))
           (filter (\<lambda>field. getattr_default entity field VNone
                               \<noteq> (case model_dict field of Some v \<Rightarrow> v | None \<Rightarrow> VNone))
              allowed))"

text \<open>
  The version-guarded condition of the conditional statements:
  \<^verbatim>\<open>WHERE id = :id\<close>, and \<^verbatim>\<open>AND version = :expected\<close> when versioning is on and an
  expected version is known.
\<close>

definition guarded :: "uuid \<Rightarrow> val option \<Rightarrow> row \<Rightarrow> bool" where
  "guarded i expected_version r =
     (r ''id'' = VUuid i
      \<and> (case expected_version of
            Some ev \<Rightarrow> if use_versioning then r ''version'' = ev else True
          | None \<Rightarrow> True))"

text \<open>
  The second half of \<^verbatim>\<open>update\<close> (from the assignment of \<^verbatim>\<open>update_data['version']\<close>
  on): the conditional write and the merge of the returned row into the tracked entity.
  The statement sets \<^verbatim>\<open>version\<close> to the stored version plus one and the changed
  columns to the entity's values; the column \<^verbatim>\<open>updated_at\<close> is declared with
  \<^verbatim>\<open>onupdate=func.now()\<close>, so a statement that does not set it has it stamped by the
  store. When no row comes back the row is read again: absent, the entity is not found;
  present, the versions disagree.
\<close>

definition update_write ::
  "repo_config \<Rightarrow> clock \<Rightarrow> uuid \<Rightarrow> val option \<Rightarrow> (string \<times> val) list \<Rightarrow> world \<Rightarrow> scope
     \<Rightarrow> (repo_error + ref) \<times> world \<times> scope" where
  "update_write cfg clk i expected_version update_data w sc =
     (let set_values =
            (\<lambda>r key. if use_versioning \<and> key = ''version'' then sql_plus_one (r ''version'')
                      else (case map_of update_data key of
                              Some v \<Rightarrow> v
                            | None \<Rightarrow> if key = ''updated_at'' \<and> key \<in> set (columns cfg)
                                       then VTime (clk 1) else r key))
      in case sql_update (guarded i expected_version) set_values (table w) of
           (rows', returned) \<Rightarrow>
             (case scalar_one_or_none returned of
                Inl _ \<Rightarrow> (Inl (RepositoryError ''Failed to update entity''), w, sc)
              | Inr None \<Rightarrow>
                  (case db_get (table w) i of
                     None \<Rightarrow> (Inl (EntityNotFoundError (model_name cfg) i), w, sc)
                   | Some current_model \<Rightarrow>
                       if use_versioning
                       then (Inl (ConcurrencyError (model_name cfg) i
                                    (py_or (case expected_version of
                                              Some ev \<Rightarrow> ev | None \<Rightarrow> VNone) (VInt (- 1)))
                                    (current_model ''version'') None), w, sc)
                       else (Inl (RepositoryError ''Unexpected error updating''), w, sc))
              | Inr (Some updated_model) \<Rightarrow>
                  (let w1 = w\<lparr>table := rows'\<rparr>
                   in case get_entity (uow sc) (entity_class cfg) i of
                        Some tracked_entity \<Rightarrow>
                          (let w2 = set_obj tracked_entity
                                      (update_entity_from_model cfg (heap w1 tracked_entity)
                                         updated_model) w1
                           in (Inr tracked_entity, w2,
                               record_version (heap w2 tracked_entity) i
                                 (getattr_default (heap w2 tracked_entity) ''version'' VNone) sc))
                      | None \<Rightarrow>
                          (case alloc (to_entity cfg updated_model) w1 of
                             (updated_entity, w2) \<Rightarrow>
                               (Inr updated_entity, w2,
                                record_version (heap w2 updated_entity) i
                                  (getattr_default (heap w2 updated_entity) ''version'' VNone)
                                  (sc\<lparr>uow := register_entity w2 updated_entity i (uow sc)\<rparr>))))))"

text \<open>
  \<^verbatim>\<open>update\<close>. An entity the scope has no baseline for is refused. The current row is
  read and its version compared with the baseline. Then the entity is touched (its
  \<^verbatim>\<open>updated_at\<close> takes the clock's reading, its \<^verbatim>\<open>updated_by\<close> the user when one is
  given), and only afterwards compared with the row. With no changed field and the
  entity's version equal to the baseline the entity is returned as it is; reading the
  version of an entity that has none is an attribute error, reported as a repository
  error.
\<close>

definition update ::
  "repo_config \<Rightarrow> clock \<Rightarrow> string option \<Rightarrow> uuid \<Rightarrow> ref \<Rightarrow> world \<Rightarrow> scope
     \<Rightarrow> (repo_error + ref) \<times> world \<times> scope" where
  "update cfg clk user i entity w sc =
     (let expected_version = (if use_versioning then original_versions sc i else None)
      in if use_versioning \<and> expected_version = None
         then (Inl (ConcurrencyError (model_name cfg) i (VInt (- 1))
                      (getattr_default (heap w entity) ''version'' (VInt (- 1)))
                      (Some ''Entity not tracked; retrieve it via get() first'')), w, sc)
         else
           (case db_get (table w) i of
              None \<Rightarrow> (Inl (EntityNotFoundError (model_name cfg) i), w, sc)
            | Some existing_model \<Rightarrow>
                if use_versioning \<and> expected_version \<noteq> None
                   \<and> Some (existing_model ''version'') \<noteq> expected_version
                then (Inl (ConcurrencyError (model_name cfg) i
                             (case expected_version of Some ev \<Rightarrow> ev | None \<Rightarrow> VNone)
                             (existing_model ''version'') None), w, sc)
                else
                  (let w1 = (if domain_entity (heap w entity)
                             then set_obj entity (touch (clk 0) user (heap w entity)) w else w);
                       update_data = get_changed_data cfg (heap w1 entity) existing_model True
                   in if update_data = [] \<and> \<not> use_versioning then (Inr entity, w1, sc)
                      else if update_data = [] \<and> obj_attrs (heap w1 entity) ''version'' = None
                      then (Inl (RepositoryError ''Failed to update entity''), w1, sc)
                      else if update_data = []
                              \<and> obj_attrs (heap w1 entity) ''version'' = expected_version
                      then (Inr entity, w1, sc)
                      else update_write cfg clk i expected_version update_data w1 sc)))"

subsection \<open>delete\<close>





subsection \<open>A sample store\<close>

text \<open>
  The repository of automations, a table holding one automation (identifier 1, version
  1, last updated at time 5), and a scope that has loaded nothing yet.
\<close>

definition automation_repo :: repo_config where
  "automation_repo =
     \<lparr>model_name = ''AutomationModel'', entity_class = ''Automation'',
      columns = [''id'', ''created_at'', ''updated_at'', ''created_by'', ''updated_by'',
                 ''version'', ''name'', ''description'', ''batch_schema'', ''item_schema'',
                 ''is_active''],
      updatable_fields = Some [''name'', ''description'', ''batch_schema'', ''item_schema''],
      entity_fields = [''name'', ''description'', ''batch_schema'', ''item_schema'']\<rparr>"

definition automation_row :: row where
  "automation_row =
     (\<lambda>_. VNone)
       (''id'' := VUuid 1, ''created_at'' := VTime 5, ''updated_at'' := VTime 5,
        ''version'' := VInt 1, ''name'' := VStr ''test'', ''is_active'' := VBool True)"

definition sample_store :: world where
  "sample_store = \<lparr>table = [automation_row], heap = (\<lambda>_. blank_obj), next_ref = 0\<rparr>"

definition new_scope :: scope where
  "new_scope = \<lparr>uow = open_uow, original_versions = Map.empty\<rparr>"

subsection \<open>A sample history of two scopes\<close>

text \<open>
  Two scopes load the automation of the sample store one after the other (the objects
  get the references 0 and 1). The caller of the first scope renames its entity and
  updates it at time 9.
\<close>

definition first_load :: "(repo_error + ref option) \<times> world \<times> scope" where
  "first_load = get automation_repo 1 False sample_store new_scope"

definition second_load :: "(repo_error + ref option) \<times> world \<times> scope" where
  "second_load = get automation_repo 1 False (fst (snd first_load)) new_scope"

definition renamed_world :: world where
  "renamed_world =
     set_obj 0
       ((heap (fst (snd second_load)) 0)
          \<lparr>obj_attrs := (obj_attrs (heap (fst (snd second_load)) 0))
                          (''name'' \<mapsto> VStr ''updated by other'')\<rparr>)
       (fst (snd second_load))"

definition first_update :: "(repo_error + ref) \<times> world \<times> scope" where
  "first_update =
     update automation_repo (\<lambda>n. 9 + n) None 1 0 renamed_world (snd (snd first_load))"

subsection \<open>A sample soft delete\<close>


subsection \<open>A sample history of one scope with two commits\<close>









subsection \<open>A sample scope whose commit fails\<close>



section \<open>The status machine against the specification's table\<close>

text \<open>
  C1. For every ordered pair of statuses, \<^verbatim>\<open>can_transition_to\<close> answers true exactly
  when the pair is a row entry of the specification's transition table, and it answers
  false for every target when the source is COMPLETED, CANCELLED or SKIPPED.
\<close>

theorem can_transition_to_table:
  "can_transition_to from_status to_status =
     ((from_status, to_status) \<in> set spec_transition_table)
   \<and> \<not> can_transition_to COMPLETED to_status
   \<and> \<not> can_transition_to CANCELLED to_status
   \<and> \<not> can_transition_to SKIPPED to_status"
  by (cases from_status; cases to_status)
     (simp_all add: can_transition_to_def spec_transition_table_def)

section \<open>Run and ItemExecution transitions\<close>

text \<open>
  C7. \<^verbatim>\<open>Run.complete\<close> on a run whose status does not allow the transition to
  COMPLETED raises InvalidStateError and leaves the run as it was. On a run in PROCESSING
  it returns normally, the status is COMPLETED, \<^verbatim>\<open>finished_at\<close> holds the time read,
  the version is one more than before, and the event list has grown by exactly one
  RunCompleted event carrying the run's own identifier and automation identifier.
\<close>

theorem Run_complete_outcome:
  "(\<not> can_transition_to (Run.status r) COMPLETED \<longrightarrow>
      Run_complete clk r =
        (Some (InvalidStateError ''Run'' (id' r) (status_value (Run.status r)) ''complete''), r))
   \<and> (Run.status r = PROCESSING \<longrightarrow>
      fst (Run_complete clk r) = None
      \<and> Run.status (snd (Run_complete clk r)) = COMPLETED
      \<and> Run.finished_at (snd (Run_complete clk r)) = Some (clk 0)
      \<and> version (snd (Run_complete clk r)) = version r + 1
      \<and> events (snd (Run_complete clk r)) =
          events r @ [RunCompleted (id' r) (automation_id r) (clk 0) (clk 2)])"
  by (simp add: Run_complete_def can_transition_to_def Let_def bump_version_def
      register_event_def)

theorem Run_complete_outcome_witness:
  "\<not> can_transition_to (Run.status sample_run) COMPLETED
   \<and> Run_complete sample_clock sample_run =
       (Some (InvalidStateError ''Run'' 7 ''PENDING'' ''complete''), sample_run)
   \<and> Run.status (snd (Run_start sample_clock sample_run)) = PROCESSING
   \<and> fst (Run_complete sample_clock (snd (Run_start sample_clock sample_run))) = None
   \<and> Run.status (snd (Run_complete sample_clock (snd (Run_start sample_clock sample_run))))
       = COMPLETED
   \<and> version (snd (Run_complete sample_clock (snd (Run_start sample_clock sample_run)))) = 3
   \<and> events (snd (Run_complete sample_clock (snd (Run_start sample_clock sample_run))))
       = [RunCompleted 7 3 20 22]"
  using Run_complete_outcome [of sample_run sample_clock]
    Run_complete_outcome [of "snd (Run_start sample_clock sample_run)" sample_clock]
  by (simp add: sample_run_def sample_clock_def Run_start_def can_transition_to_def
      bump_version_def)

text \<open>
  C6. A call of \<^verbatim>\<open>ItemExecution.start\<close> that returns normally has added exactly one to
  \<^verbatim>\<open>attempt_count\<close>. When \<^verbatim>\<open>max_attempts\<close> is set and \<^verbatim>\<open>attempt_count\<close> has
  reached it, the call raises InvalidStateError and the entity is left as it was (so
  neither the attempt count nor the status changes). When the limit is absent or not
  reached and the status allows the transition to PROCESSING, the call returns normally.
\<close>

theorem ItemExecution_start_attempts:
  "(fst (ItemExecution_start clk e) = None \<longrightarrow>
      attempt_count (snd (ItemExecution_start clk e)) = attempt_count e + 1)
   \<and> (max_attempts e = Some m \<and> attempt_count e \<ge> m \<longrightarrow>
      ItemExecution_start clk e =
        (Some (InvalidStateError ''ItemExecution'' (id' e) (status_value (status e))
                 (''start (max attempts '' @ str_int m @ '' already reached)'')), e))
   \<and> ((max_attempts e = None \<or> (\<exists>k. max_attempts e = Some k \<and> attempt_count e < k))
       \<and> can_transition_to (status e) PROCESSING \<longrightarrow>
      fst (ItemExecution_start clk e) = None)"
  by (auto simp: ItemExecution_start_def attempts_reached_def bump_version_def
      str_opt_int_def split: option.splits)

theorem ItemExecution_start_attempts_witness:
  "fst (ItemExecution_start sample_clock (sample_item\<lparr>status := RETRYING\<rparr>)) = None
   \<and> attempt_count (snd (ItemExecution_start sample_clock (sample_item\<lparr>status := RETRYING\<rparr>)))
       = 2
   \<and> max_attempts (sample_item\<lparr>status := RETRYING, attempt_count := 3\<rparr>) = Some 3
   \<and> snd (ItemExecution_start sample_clock (sample_item\<lparr>status := RETRYING, attempt_count := 3\<rparr>))
       = sample_item\<lparr>status := RETRYING, attempt_count := 3\<rparr>
   \<and> fst (ItemExecution_start sample_clock (sample_item\<lparr>status := RETRYING, attempt_count := 3\<rparr>))
       \<noteq> None"
  using
    ItemExecution_start_attempts [of sample_clock "sample_item\<lparr>status := RETRYING\<rparr>" 3]
    ItemExecution_start_attempts
      [of sample_clock "sample_item\<lparr>status := RETRYING, attempt_count := 3\<rparr>" 3]
  by (simp add: sample_item_def can_transition_to_def)

text \<open>
  C5, as the code has it. When the status allows the transition to the status \<^verbatim>\<open>fail\<close>
  aims at, the call returns normally; the new status is RETRYING exactly when
  \<^verbatim>\<open>max_attempts\<close> is set and \<^verbatim>\<open>attempt_count\<close> is below it, and FAILED otherwise;
  \<^verbatim>\<open>finished_at\<close> is assigned only when the new status is FAILED (it holds the time
  read then), and when the new status is RETRYING it keeps the value it had before the
  call, set or unset.
\<close>

theorem ItemExecution_fail_target:
  assumes "can_transition_to (status e)
             (if (\<exists>m. max_attempts e = Some m \<and> attempt_count e < m) then RETRYING else FAILED)"
  shows "fst (ItemExecution_fail msg clk e) = None
   \<and> (status (snd (ItemExecution_fail msg clk e)) = RETRYING
        \<longleftrightarrow> (\<exists>m. max_attempts e = Some m \<and> attempt_count e < m))
   \<and> (status (snd (ItemExecution_fail msg clk e)) = FAILED
        \<longleftrightarrow> \<not> (\<exists>m. max_attempts e = Some m \<and> attempt_count e < m))
   \<and> (status (snd (ItemExecution_fail msg clk e)) = FAILED \<longrightarrow>
        finished_at (snd (ItemExecution_fail msg clk e)) = Some (clk 0))
   \<and> (status (snd (ItemExecution_fail msg clk e)) = RETRYING \<longrightarrow>
        finished_at (snd (ItemExecution_fail msg clk e)) = finished_at e)"
proof -
  have target: "fail_target (e\<lparr>error_message := Some msg\<rparr>) =
      (if (\<exists>m. max_attempts e = Some m \<and> attempt_count e < m) then RETRYING else FAILED)"
    by (auto simp: fail_target_def split: option.splits)
  show ?thesis
    using assms
    by (simp add: ItemExecution_fail_def Let_def target bump_version_def register_event_def)
qed

theorem ItemExecution_fail_target_witness:
  "can_transition_to (status sample_item) RETRYING
   \<and> status (snd (ItemExecution_fail ''boom'' sample_clock sample_item)) = RETRYING
   \<and> finished_at (snd (ItemExecution_fail ''boom'' sample_clock sample_item)) = None
   \<and> can_transition_to (status (sample_item\<lparr>max_attempts := Some 1\<rparr>)) FAILED
   \<and> status (snd (ItemExecution_fail ''boom'' sample_clock (sample_item\<lparr>max_attempts := Some 1\<rparr>)))
       = FAILED
   \<and> finished_at (snd (ItemExecution_fail ''boom'' sample_clock
         (sample_item\<lparr>max_attempts := Some 1\<rparr>))) = Some 20"
  using ItemExecution_fail_target [of sample_item "''boom''" sample_clock]
    ItemExecution_fail_target [of "sample_item\<lparr>max_attempts := Some 1\<rparr>" "''boom''" sample_clock]
  by (simp add: sample_item_def sample_clock_def can_transition_to_def)

text \<open>
  The claim as it is worded has \<^verbatim>\<open>finished_at\<close> unset whenever the result is RETRYING.
  An item execution that has FAILED, with \<^verbatim>\<open>finished_at\<close> set by that failure, and is
  given more attempts (\<^verbatim>\<open>max_attempts\<close> is a public field, and the transition from
  FAILED to RETRYING is legal) is failed again: the result is RETRYING and
  \<^verbatim>\<open>finished_at\<close> still holds the time of the first failure.
\<close>

theorem failed_item_retried_keeps_finished_at:
  "status failed_item = FAILED
   \<and> finished_at failed_item = Some 20
   \<and> attempt_count (failed_item\<lparr>max_attempts := Some 3\<rparr>) = 1
   \<and> can_transition_to (status (failed_item\<lparr>max_attempts := Some 3\<rparr>)) RETRYING
   \<and> fst (ItemExecution_fail ''boom again'' sample_clock (failed_item\<lparr>max_attempts := Some 3\<rparr>))
       = None
   \<and> status (snd (ItemExecution_fail ''boom again'' sample_clock
         (failed_item\<lparr>max_attempts := Some 3\<rparr>))) = RETRYING
   \<and> finished_at (snd (ItemExecution_fail ''boom again'' sample_clock
         (failed_item\<lparr>max_attempts := Some 3\<rparr>))) = Some 20"
  by (simp add: failed_item_def ItemExecution_fail_def fail_target_def Let_def sample_item_def
      sample_clock_def can_transition_to_def bump_version_def register_event_def)

text \<open>
  C10. When the status allows neither the transition to FAILED nor the one to RETRYING,
  \<^verbatim>\<open>fail\<close> raises InvalidStateError; status, attempt count, \<^verbatim>\<open>finished_at\<close> and
  version are as before, but \<^verbatim>\<open>error_message\<close> holds the message passed in: the entity
  the call leaves behind is the old one with that single field overwritten.
\<close>

theorem ItemExecution_fail_rejected_keeps_message:
  assumes "\<not> can_transition_to (status e) FAILED"
      and "\<not> can_transition_to (status e) RETRYING"
  shows "(\<exists>operation. fst (ItemExecution_fail msg clk e) =
            Some (InvalidStateError ''ItemExecution'' (id' e) (status_value (status e)) operation))
   \<and> snd (ItemExecution_fail msg clk e) = e\<lparr>error_message := Some msg\<rparr>
   \<and> status (snd (ItemExecution_fail msg clk e)) = status e
   \<and> attempt_count (snd (ItemExecution_fail msg clk e)) = attempt_count e
   \<and> finished_at (snd (ItemExecution_fail msg clk e)) = finished_at e
   \<and> version (snd (ItemExecution_fail msg clk e)) = version e
   \<and> error_message (snd (ItemExecution_fail msg clk e)) = Some msg"
proof -
  have "\<not> can_transition_to (status e) (fail_target (e\<lparr>error_message := Some msg\<rparr>))"
    using assms by (simp add: fail_target_def)
  then show ?thesis
    by (simp add: ItemExecution_fail_def Let_def)
qed

theorem ItemExecution_fail_rejected_keeps_message_witness:
  "\<not> can_transition_to (status (sample_item\<lparr>status := PENDING\<rparr>)) FAILED
   \<and> \<not> can_transition_to (status (sample_item\<lparr>status := PENDING\<rparr>)) RETRYING
   \<and> fst (ItemExecution_fail ''boom'' sample_clock (sample_item\<lparr>status := PENDING\<rparr>)) \<noteq> None
   \<and> error_message (sample_item\<lparr>status := PENDING\<rparr>) = None
   \<and> error_message (snd (ItemExecution_fail ''boom'' sample_clock
         (sample_item\<lparr>status := PENDING\<rparr>))) = Some ''boom''
   \<and> status (snd (ItemExecution_fail ''boom'' sample_clock
         (sample_item\<lparr>status := PENDING\<rparr>))) = PENDING"
  using ItemExecution_fail_rejected_keeps_message
    [of "sample_item\<lparr>status := PENDING\<rparr>" "''boom''" sample_clock]
  by (auto simp: sample_item_def can_transition_to_def)

section \<open>Equality of entities\<close>

lemma py_eq_Run_iff: "py_eq (RunEntity a) (RunEntity b) \<longleftrightarrow> a = b"
  by (cases a; cases b) (auto simp: py_eq_def Run_eq_def)

lemma py_eq_different_ids: "id_of_entity a \<noteq> id_of_entity b \<Longrightarrow> \<not> py_eq a b"
  by (cases a; cases b) (auto simp: py_eq_def Run_eq_def ItemExecution_eq_def)

text \<open>
  C9. Two runs with the same identifier and a different status: the hand-written
  \<^verbatim>\<open>DomainEntity.__eq__\<close> would call them equal, the operator \<^verbatim>\<open>==\<close> on them, which
  runs the \<^verbatim>\<open>__eq__\<close> generated for \<^verbatim>\<open>Run\<close>, does not.
\<close>

theorem Run_same_id_not_equal:
  "id' (sample_run\<lparr>Run.status := PROCESSING\<rparr>) = id' sample_run
   \<and> DomainEntity_eq (RunEntity sample_run) (RunEntity (sample_run\<lparr>Run.status := PROCESSING\<rparr>))
   \<and> \<not> py_eq (RunEntity sample_run) (RunEntity (sample_run\<lparr>Run.status := PROCESSING\<rparr>))"
  by (simp add: sample_run_def DomainEntity_eq_def py_eq_def Run_eq_def)

section \<open>Unit of work: collecting and dispatching events\<close>









text \<open>
  A scope loads a run and commits, which empties the tracking dictionary and the identity
  map. The caller completes the run it still holds (\<^verbatim>\<open>Run.complete\<close> at the sample
  clock leaves the fields and the event computed first) and hands it to \<^verbatim>\<open>update\<close>,
  which finds no tracked entity, registers a fresh copy built from the row (reference 1)
  and returns it. The second commit succeeds and hands nothing to the bus: the
  RunCompleted event is still on the caller's object.
\<close>

lemma completed_run_fields:
  "(case Run_complete sample_clock
           (sample_run\<lparr>Run.status := PROCESSING, Run.started_at := Some 6\<rparr>) of
      (err, r) \<Rightarrow>
        err = None \<and> Run.status r = COMPLETED \<and> Run.finished_at r = Some 20
        \<and> version r = 2 \<and> updated_at r = Some 21
        \<and> events r = [RunCompleted 7 3 20 22])"
  by (simp add: Run_complete_def sample_run_def sample_clock_def can_transition_to_def
      bump_version_def register_event_def Let_def)




section \<open>Repository: optimistic locking\<close>

lemma find_Some_set: "find P xs = Some x \<Longrightarrow> x \<in> set xs \<and> P x"
  by (induction xs) (auto split: if_splits)

lemma db_get_Some: "db_get rows i = Some r \<Longrightarrow> r \<in> set rows \<and> r ''id'' = VUuid i"
  unfolding db_get_def by (drule find_Some_set) simp

lemma query_first_Some:
  "query_first rows i a = Some r \<Longrightarrow>
   r \<in> set rows \<and> r ''id'' = VUuid i \<and> (a \<longrightarrow> r ''is_active'' = VBool True)"
  unfolding query_first_def by (drule find_Some_set) auto

lemma same_id_same_row:
  "distinct (map (\<lambda>r. r ''id'') rows) \<Longrightarrow> r \<in> set rows \<Longrightarrow> r' \<in> set rows \<Longrightarrow>
   r ''id'' = r' ''id'' \<Longrightarrow> r = r'"
  by (auto simp: distinct_map dest: inj_onD)

lemma copy_common_attrs_keeps:
  "t k \<noteq> None \<Longrightarrow> copy_common_attrs cfg source t names k \<noteq> None"
  unfolding copy_common_attrs_def by (induction names arbitrary: t) auto

lemma fold_upd_keeps:
  "t k \<noteq> None \<Longrightarrow> fold (\<lambda>field t. t(field \<mapsto> f field)) names t k \<noteq> None"
  by (induction names arbitrary: t) auto

lemma to_entity_has_version: "obj_attrs (to_entity cfg model) ''version'' \<noteq> None"
  unfolding to_entity_def
  by (simp add: copy_common_attrs_keeps fold_upd_keeps DomainEntity_defaults_def)

lemma get_untracked_baseline:
  assumes "get cfg i incl w sc = (Inr (Some e), w', sc')"
      and "get_entity (uow sc) (entity_class cfg) i = None"
  shows "\<exists>model. query_first (table w) i (\<not> incl \<and> ''is_active'' \<in> set (columns cfg)) = Some model
           \<and> original_versions sc' i = Some (model ''version'')"
  using assms
  by (auto simp: get_def alloc_def record_version_def use_versioning_def to_entity_has_version
      split: option.splits)

lemma update_stale_baseline:
  assumes "original_versions sc i = Some ev"
      and "db_get (table w) i = Some r"
      and "r ''version'' \<noteq> ev"
  shows "update cfg clk user i e w sc =
           (Inl (ConcurrencyError (model_name cfg) i ev (r ''version'') None), w, sc)"
  using assms by (simp add: update_def use_versioning_def)

lemma second_load_result: "fst second_load = Inr (Some 1)"
  by code_simp

lemma first_load_ids: "distinct (map (\<lambda>r. r ''id'') (table (fst (snd first_load))))"
  by code_simp

lemma first_load_row:
  "(case db_get (table (fst (snd first_load))) 1 of
      None \<Rightarrow> False | Some r \<Rightarrow> r ''version'' = VInt 1)"
  by code_simp

lemma first_update_result: "fst first_update = Inr 0"
  by code_simp

lemma first_update_row:
  "(case db_get (table (fst (snd first_update))) 1 of
      None \<Rightarrow> False | Some r \<Rightarrow> r ''version'' = VInt 2)"
  by code_simp

text \<open>
  C2. A scope loads an entity it does not track yet while the stored row has version 1,
  which becomes its baseline. Once the stored row has version 2 (another scope's update
  went through), an update of that entity by the first-mentioned scope raises
  ConcurrencyError with expected version 1 and actual version 2, and leaves the world,
  hence the stored row, and the scope as they were.
\<close>

theorem stale_update_raises_concurrency:
  assumes loaded: "get cfg i False w0 sc0 = (Inr (Some e2), w0', sc2)"
      and fresh: "get_entity (uow sc0) (entity_class cfg) i = None"
      and pk: "distinct (map (\<lambda>r. r ''id'') (table w0))"
      and stored: "db_get (table w0) i = Some r0" "r0 ''version'' = VInt 1"
      and bumped: "db_get (table w) i = Some r" "r ''version'' = VInt 2"
  shows "update cfg clk user i e w sc2 =
           (Inl (ConcurrencyError (model_name cfg) i (VInt 1) (VInt 2) None), w, sc2)"
proof -
  obtain model where m: "query_first (table w0) i (''is_active'' \<in> set (columns cfg)) = Some model"
      and base: "original_versions sc2 i = Some (model ''version'')"
    using get_untracked_baseline [OF loaded fresh] by auto
  have "model = r0"
    using same_id_same_row [OF pk] query_first_Some [OF m] db_get_Some [OF stored(1)] by metis
  with base stored(2) have "original_versions sc2 i = Some (VInt 1)" by simp
  from update_stale_baseline [OF this bumped(1)] bumped(2) show ?thesis by simp
qed

theorem stale_update_raises_concurrency_witness:
  "fst second_load = Inr (Some 1)
   \<and> fst first_update = Inr 0
   \<and> update automation_repo sample_clock (Some ''bob'') 1 1 (fst (snd first_update))
        (snd (snd second_load))
      = (Inl (ConcurrencyError ''AutomationModel'' 1 (VInt 1) (VInt 2) None),
         fst (snd first_update), snd (snd second_load))"
proof -
  have loaded: "get automation_repo 1 False (fst (snd first_load)) new_scope
      = (Inr (Some 1), fst (snd second_load), snd (snd second_load))"
    unfolding second_load_def [symmetric] using second_load_result by (simp add: prod_eq_iff)
  have fresh: "get_entity (uow new_scope) (entity_class automation_repo) 1 = None"
    by (simp add: get_entity_def new_scope_def open_uow_def)
  obtain r0 where r0: "db_get (table (fst (snd first_load))) 1 = Some r0" "r0 ''version'' = VInt 1"
    using first_load_row by (auto split: option.splits)
  obtain r where r: "db_get (table (fst (snd first_update))) 1 = Some r" "r ''version'' = VInt 2"
    using first_update_row by (auto split: option.splits)
  show ?thesis
    using stale_update_raises_concurrency [OF loaded fresh first_load_ids r0 r,
        of sample_clock "Some ''bob''" 1]
      second_load_result first_update_result
    by (simp add: automation_repo_def)
qed

section \<open>Repository: update of an unchanged entity\<close>

text \<open>
  C4, on the code. The sample automation is loaded and handed back to \<^verbatim>\<open>update\<close> with
  no attribute changed: before the call no allowed field differs from the stored row.
  \<^verbatim>\<open>update\<close> touches the entity first, so \<^verbatim>\<open>updated_at\<close> differs (the clock reads
  9, the row holds 5), the conditional write is made, and both the stored version and
  the entity's version go from 1 to 2.
\<close>

theorem unchanged_update_bumps_version:
  "get_changed_data automation_repo (heap (fst (snd first_load)) 0) automation_row True = []
   \<and> obj_attrs (heap (fst (snd first_load)) 0) ''version'' = Some (VInt 1)
   \<and> fst (update automation_repo (\<lambda>n. 9 + n) None 1 0 (fst (snd first_load))
            (snd (snd first_load))) = Inr 0
   \<and> map (\<lambda>r. r ''version'')
        (table (fst (snd (update automation_repo (\<lambda>n. 9 + n) None 1 0 (fst (snd first_load))
                             (snd (snd first_load)))))) = [VInt 2]
   \<and> obj_attrs (heap (fst (snd (update automation_repo (\<lambda>n. 9 + n) None 1 0
                                   (fst (snd first_load)) (snd (snd first_load))))) 0)
        ''version'' = Some (VInt 2)"
  by code_simp

section \<open>Repository: soft delete\<close>



















end
